theory Spec2Isabelle
  imports Complex_Main
begin

section \<open>Values read from and written to the record file\<close>

text \<open>
  A Python string is modelled by \<open>string\<close>, a list of characters: each character stands
  for one code point below U+0100. Strings with other code points (among them the lone
  surrogates that \<^verbatim>\<open>json.load\<close> accepts in an escape) have no counterpart here.
\<close>

text \<open>
  The record file \<^verbatim>\<open>files-data.json\<close> is read with \<^verbatim>\<open>json.load\<close> and written with
  \<^verbatim>\<open>json.dump\<close>. The values \<^verbatim>\<open>json.load\<close> can return are modelled by \<open>json\<close>: a number
  carries its numeric value (Python compares \<^verbatim>\<open>int\<close> and \<^verbatim>\<open>float\<close> by value), an object
  is the list of its items in insertion order, with distinct keys.
\<close>

datatype json =
    JNull
  | JBool bool
  | JNum rat
  | JStr string
  | JArr "json list"
  | JObj "(string \<times> json) list"

text \<open>Python's truth value of a decoded value (\<^verbatim>\<open>not data\<close>, \<^verbatim>\<open>last_year and ...\<close>).\<close>

fun truthy :: "json \<Rightarrow> bool" where
  "truthy JNull = False"
| "truthy (JBool b) = b"
| "truthy (JNum r) = (r \<noteq> 0)"
| "truthy (JStr s) = (s \<noteq> [])"
| "truthy (JArr xs) = (xs \<noteq> [])"
| "truthy (JObj kvs) = (kvs \<noteq> [])"

text \<open>
  Python's \<^verbatim>\<open>==\<close> on decoded values: lists compare elementwise, dictionaries compare
  as maps (the order of the keys does not matter), \<^verbatim>\<open>True == 1\<close> and \<^verbatim>\<open>False == 0\<close>.
\<close>

fun py_eq :: "json \<Rightarrow> json \<Rightarrow> bool" where
  "py_eq JNull b = (b = JNull)"
| "py_eq (JBool x) b =
     (case b of JBool y \<Rightarrow> x = y | JNum q \<Rightarrow> q = (if x then 1 else 0) | _ \<Rightarrow> False)"
| "py_eq (JNum r) b =
     (case b of JNum q \<Rightarrow> r = q | JBool y \<Rightarrow> r = (if y then 1 else 0) | _ \<Rightarrow> False)"
| "py_eq (JStr s) b = (b = JStr s)"
| "py_eq (JArr xs) b = (case b of JArr ys \<Rightarrow> list_all2 py_eq xs ys | _ \<Rightarrow> False)"
| "py_eq (JObj kvs) b =
     (case b of
        JObj kvs' \<Rightarrow>
          length kvs = length kvs' \<and>
          list_all (\<lambda>(k, v). case map_of kvs' k of None \<Rightarrow> False | Some v' \<Rightarrow> py_eq v v') kvs
      | _ \<Rightarrow> False)"

text \<open>\<^verbatim>\<open>item in links\<close>: some element of the list equals the item.\<close>

definition py_in :: "json \<Rightarrow> json list \<Rightarrow> bool" where
  "py_in item xs = list_ex (\<lambda>e. py_eq e item) xs"

section \<open>Exceptions, log lines, the record file\<close>

datatype exn =
    ValueError string
  | TypeError string
  | AttributeError
  | KeyError
  | IndexError
  | JSONDecodeError
  | UnicodeDecodeError
  | RecursionError
  | URLError

datatype level = INFO | WARNING | ERROR

text \<open>
  The content of the record file is represented by what \<^verbatim>\<open>json.load\<close> makes of it. The
  file may hold zero bytes; bytes that are not UTF-8; text that is not a JSON document;
  a JSON document with an integer literal longer than the interpreter converts; a JSON
  document nested deeper than the interpreter's recursion limit; or a document that
  decodes to a value. A path with no file is \<open>None\<close> in the \<open>store\<close> field.
\<close>

datatype store_file =
    ZeroBytes
  | NotUTF8
  | NotJSON
  | HugeInteger
  | DeeplyNested
  | Parsed json

text \<open>
  \<^verbatim>\<open>json.load(f)\<close> on a file opened for reading with the encoding UTF-8. The message of
  the \<open>ValueError\<close> is the fixed part of the interpreter's message, which goes on with
  the number of digits found.
\<close>

fun json_load :: "store_file \<Rightarrow> exn + json" where
  "json_load ZeroBytes = Inl JSONDecodeError"
| "json_load NotUTF8 = Inl UnicodeDecodeError"
| "json_load NotJSON = Inl JSONDecodeError"
| "json_load HugeInteger =
     Inl (ValueError ''Exceeds the limit (4300 digits) for integer string conversion'')"
| "json_load DeeplyNested = Inl RecursionError"
| "json_load (Parsed v) = Inr v"

record world =
  store :: "store_file option"
  logged :: "(level \<times> string) list"

definition logging :: "level \<Rightarrow> string \<Rightarrow> world \<Rightarrow> world" where
  "logging lv msg w = w\<lparr>logged := logged w @ [(lv, msg)]\<rparr>"

text \<open>\<^verbatim>\<open>data[0]\<close> on a decoded value that is truthy.\<close>

fun subscript0 :: "json \<Rightarrow> exn + json" where
  "subscript0 (JArr (x # xs)) = Inr x"
| "subscript0 (JArr []) = Inl IndexError"
| "subscript0 (JStr (c # cs)) = Inr (JStr [c])"
| "subscript0 (JStr []) = Inl IndexError"
| "subscript0 (JObj kvs) = Inl KeyError"
| "subscript0 _ = Inl (TypeError ''object is not subscriptable'')"

text \<open>\<^verbatim>\<open>last_entry.get(key, "")\<close>: only a dictionary has the method.\<close>

fun py_get :: "json \<Rightarrow> string \<Rightarrow> json \<Rightarrow> exn + json" where
  "py_get (JObj kvs) k d = Inr (case map_of kvs k of None \<Rightarrow> d | Some v \<Rightarrow> v)"
| "py_get _ k d = Inl AttributeError"

text \<open>Iterating a decoded value (\<^verbatim>\<open>for item in existing_links\<close>).\<close>

fun py_iter :: "json \<Rightarrow> exn + json list" where
  "py_iter (JArr xs) = Inr xs"
| "py_iter (JObj kvs) = Inr (map (\<lambda>(k, v). JStr k) kvs)"
| "py_iter (JStr s) = Inr (map (\<lambda>c. JStr [c]) s)"
| "py_iter _ = Inl (TypeError ''object is not iterable'')"

section \<open>get_last_data\<close>

definition get_last_data :: "world \<Rightarrow> (exn + json \<times> json) \<times> world" where
  "get_last_data w =
     (case store w of
        None \<Rightarrow> (Inr (JStr '''', JStr ''''), logging ERROR ''The JSON file does not exist.'' w)
      | Some f \<Rightarrow>
          (case json_load f of
             Inl e \<Rightarrow> (Inl e, w)
           | Inr data \<Rightarrow>
               if \<not> truthy data
               then (Inr (JStr '''', JStr ''''), logging ERROR ''No data found in the JSON file.'' w)
               else
                 (case subscript0 data of
                    Inl e \<Rightarrow> (Inl e, w)
                  | Inr last_entry \<Rightarrow>
                      (case py_get last_entry ''year'' (JStr '''') of
                         Inl e \<Rightarrow> (Inl e, w)
                       | Inr last_year \<Rightarrow>
                           (case py_get last_entry ''month'' (JStr '''') of
                              Inl e \<Rightarrow> (Inl e, w)
                            | Inr last_month \<Rightarrow> (Inr (last_year, last_month), w))))))"

section \<open>The parsed page\<close>

text \<open>
  The tree BeautifulSoup builds: a tag has a name, attributes and children; the other
  nodes are strings. The \<^verbatim>\<open>class\<close> attribute is multi-valued (a list of class names),
  every other attribute is one string.
\<close>

datatype attr_value = AttrStr string | AttrList "string list"

datatype node =
    Tag string "(string \<times> attr_value) list" "node list"
  | NavigableString string
  | Comment string

fun is_Tag :: "node \<Rightarrow> bool" where
  "is_Tag (Tag n a cs) = True"
| "is_Tag _ = False"

fun children :: "node \<Rightarrow> node list" where
  "children (Tag n a cs) = cs"
| "children _ = []"

text \<open>\<^verbatim>\<open>tag.get(key)\<close>: the attribute's value, or \<open>None\<close>.\<close>

fun get_attr :: "node \<Rightarrow> string \<Rightarrow> attr_value option" where
  "get_attr (Tag n a cs) k = map_of a k"
| "get_attr _ k = None"

text \<open>All nodes below a node, in document order (\<^verbatim>\<open>tag.descendants\<close>).\<close>

fun descendants :: "node \<Rightarrow> node list" where
  "descendants (Tag n a cs) = concat (map (\<lambda>c. c # descendants c) cs)"
| "descendants _ = []"

fun join_spaces :: "string list \<Rightarrow> string" where
  "join_spaces [] = []"
| "join_spaces [c] = c"
| "join_spaces (c # d # ds) = c @ '' '' @ join_spaces (d # ds)"

text \<open>
  How a search value given as a string matches an attribute: an absent attribute matches
  only the empty string, a single-valued attribute must be equal to it, and a
  multi-valued one matches when one of its values is equal to it or when the values
  joined by single spaces are.
\<close>

fun attr_matches :: "attr_value option \<Rightarrow> string \<Rightarrow> bool" where
  "attr_matches None t = (t = [])"
| "attr_matches (Some (AttrStr s)) t = (s = t)"
| "attr_matches (Some (AttrList cs)) t = (list_ex (\<lambda>c. c = t) cs \<or> join_spaces cs = t)"

fun matches :: "string \<Rightarrow> string \<Rightarrow> node \<Rightarrow> bool" where
  "matches nm cls (Tag n a cs) = (n = nm \<and> attr_matches (map_of a ''class'') cls)"
| "matches nm cls _ = False"

text \<open>
  \<^verbatim>\<open>tag.find_all(nm, {"class": cls}, recursive=r)\<close> and \<^verbatim>\<open>tag.find(nm, {"class": cls})\<close>:
  the matching tags among the descendants (among the children when \<open>r\<close> is false), in
  document order; \<open>find\<close> returns the first one of the recursive search.
\<close>

definition find_all :: "node \<Rightarrow> string \<Rightarrow> string \<Rightarrow> bool \<Rightarrow> node list" where
  "find_all t nm cls recursive =
     filter (matches nm cls) (if recursive then descendants t else children t)"

definition find_bs :: "node \<Rightarrow> string \<Rightarrow> string \<Rightarrow> node option" where
  "find_bs t nm cls = (case find_all t nm cls True of [] \<Rightarrow> None | x # xs \<Rightarrow> Some x)"

text \<open>
  \<^verbatim>\<open>tag.get_text(strip=True)\<close>: the strings below the tag, each stripped of leading and
  trailing whitespace, the empty ones dropped, concatenated. The whitespace of
  \<^verbatim>\<open>str.strip()\<close> below U+0100: space, U+0009 to U+000D, U+001C to U+001F, U+0085 (next
  line) and U+00A0 (no-break space).
\<close>

definition py_isspace :: "char \<Rightarrow> bool" where
  "py_isspace c = (c \<in> set [CHR '' '', CHR 0x09, CHR 0x0A, CHR 0x0B, CHR 0x0C, CHR 0x0D,
                              CHR 0x1C, CHR 0x1D, CHR 0x1E, CHR 0x1F, CHR 0x85, CHR 0xA0])"

definition strip :: "string \<Rightarrow> string" where
  "strip s = rev (dropWhile py_isspace (rev (dropWhile py_isspace s)))"

fun string_of :: "node \<Rightarrow> string list" where
  "string_of (NavigableString s) = [s]"
| "string_of _ = []"

definition get_text :: "node \<Rightarrow> string" where
  "get_text t = concat (filter (\<lambda>s. s \<noteq> []) (map strip (concat (map string_of (descendants t)))))"

section \<open>get_data: walking the listing\<close>

definition BASE_URL :: string where
  "BASE_URL = ''https://datos.madrid.es''"

definition MAIN_URL :: string where
  "MAIN_URL =
     ''https://datos.madrid.es/portal/site/egob/menuitem.c05c1f754a33a9fbe4b2e4b284f1a5a0/'' @
     ''?vgnextoid=33cb30c367e78410VgnVCM1000000b205a0aRCRD'' @
     ''&vgnextchannel=374512b9ace9f310VgnVCM100000171f5a0aRCRD''"

text \<open>
  What \<^verbatim>\<open>get_data\<close> takes from outside the repository: \<^verbatim>\<open>urllib.parse.urljoin\<close>, and
  the page that \<^verbatim>\<open>urlopen\<close> and the HTML parser deliver for a URL (or the exception
  \<^verbatim>\<open>urlopen\<close> raises).
\<close>

record env =
  urljoin :: "string \<Rightarrow> string \<Rightarrow> string"
  fetch :: "string \<Rightarrow> exn + node"

text \<open>
  The local variables of the walk: the list \<^verbatim>\<open>links\<close>, the flag \<^verbatim>\<open>stop_processing\<close>,
  and the log lines written so far.
\<close>

record walk_state =
  links :: "json list"
  stop_processing :: bool
  messages :: "(level \<times> string) list"

definition emit :: "level \<Rightarrow> string \<Rightarrow> walk_state \<Rightarrow> walk_state" where
  "emit lv msg st = st\<lparr>messages := messages st @ [(lv, msg)]\<rparr>"

definition record_of :: "string \<Rightarrow> string \<Rightarrow> string \<Rightarrow> json" where
  "record_of year_value month_value full_url =
     JObj [(''year'', JStr year_value), (''month'', JStr month_value), (''link'', JStr full_url)]"

text \<open>
  The checkpoint test of the inner loop:
  \<^verbatim>\<open>last_year and last_month and year_value == last_year and month_value == last_month\<close>.
\<close>

definition at_checkpoint :: "json \<Rightarrow> json \<Rightarrow> string \<Rightarrow> string \<Rightarrow> bool" where
  "at_checkpoint last_year last_month year_value month_value =
     (truthy last_year \<and> truthy last_month \<and>
      py_eq (JStr year_value) last_year \<and> py_eq (JStr month_value) last_month)"

text \<open>How one pass through the body of the inner loop ends.\<close>

datatype ctl = Next | Break

text \<open>The body of \<^verbatim>\<open>for m in months\<close>.\<close>

definition month_body ::
  "(string \<Rightarrow> string \<Rightarrow> string) \<Rightarrow> json \<Rightarrow> json \<Rightarrow> string \<Rightarrow> node \<Rightarrow> walk_state \<Rightarrow> ctl \<times> walk_state"
where
  "month_body join last_year last_month year_value m st =
     (if \<not> is_Tag m
      then (Next, emit WARNING
              (''Month element is not a valid Tag in year '' @ year_value @ ''. Skipping.'') st)
      else
        (case find_bs m ''p'' ''info-title'' of
           None \<Rightarrow> (Next, st)
         | Some month_text \<Rightarrow>
             let month_value = get_text month_text in
             if at_checkpoint last_year last_month year_value month_value
             then (Break, emit INFO ''The rest of the data has already been processed. Exiting.''
                            (st\<lparr>stop_processing := True\<rparr>))
             else
               (case find_bs m ''li'' ''asociada-item'' of
                  None \<Rightarrow>
                    (Next, emit WARNING
                       (''Links container not found in '' @ year_value @ '' '' @ month_value @
                        ''. Skipping.'') st)
                | Some links_li \<Rightarrow>
                    if \<not> is_Tag links_li
                    then (Next, emit WARNING
                            (''Links container not found in '' @ year_value @ '' '' @ month_value @
                             ''. Skipping.'') st)
                    else
                      (case find_bs links_li ''a'' ''asociada-link ico-zip'' of
                         None \<Rightarrow>
                           (Next, emit WARNING
                              (''ZIP link not found in '' @ year_value @ '' '' @ month_value @
                               ''. Skipping.'') st)
                       | Some zip_link \<Rightarrow>
                           if \<not> is_Tag zip_link
                           then (Next, emit WARNING
                                   (''ZIP link not found in '' @ year_value @ '' '' @ month_value @
                                    ''. Skipping.'') st)
                           else
                             (case get_attr zip_link ''href'' of
                                Some (AttrStr href) \<Rightarrow>
                                  let full_url = join BASE_URL href in
                                  (Next,
                                   (emit INFO (year_value @ '' '' @ month_value @ '': '' @ full_url) st)
                                     \<lparr>links := links st @ [record_of year_value month_value full_url]\<rparr>)
                              | _ \<Rightarrow>
                                  (Next, emit WARNING
                                     (''href attribute not found in ZIP link for '' @ year_value @
                                      '' '' @ month_value @ ''. Skipping.'') st))))))"

text \<open>\<^verbatim>\<open>for m in months\<close>: \<^verbatim>\<open>break\<close> leaves the loop, anything else goes on.\<close>

fun months_loop ::
  "(string \<Rightarrow> string \<Rightarrow> string) \<Rightarrow> json \<Rightarrow> json \<Rightarrow> string \<Rightarrow> node list \<Rightarrow> walk_state \<Rightarrow> walk_state"
where
  "months_loop join last_year last_month year_value [] st = st"
| "months_loop join last_year last_month year_value (m # ms) st =
     (case month_body join last_year last_month year_value m st of
        (Break, st') \<Rightarrow> st'
      | (Next, st') \<Rightarrow> months_loop join last_year last_month year_value ms st')"

text \<open>
  The head of the body of \<^verbatim>\<open>for year in years\<close>: the checks that raise, the year's label
  and its month entries (searched recursively).
\<close>

definition month_entries :: "node \<Rightarrow> node list" where
  "month_entries year = find_all year ''li'' ''asociada-item'' True"

definition year_head :: "node \<Rightarrow> exn + string \<times> node list" where
  "year_head year =
     (if \<not> is_Tag year then Inl (TypeError ''Year element is not a valid Tag.'')
      else
        (case find_bs year ''p'' ''info-title'' of
           None \<Rightarrow> Inl (ValueError ''Year title not found.'')
         | Some year_text \<Rightarrow>
             let year_value = get_text year_text;
                 months = month_entries year
             in if months = []
                then Inl (ValueError (''No months found for year '' @ year_value @ ''.''))
                else Inr (year_value, months)))"

text \<open>\<^verbatim>\<open>for year in years\<close>; the first component of the result is the exception raised, if any.\<close>

fun years_loop ::
  "(string \<Rightarrow> string \<Rightarrow> string) \<Rightarrow> json \<Rightarrow> json \<Rightarrow> node list \<Rightarrow> walk_state \<Rightarrow> exn option \<times> walk_state"
where
  "years_loop join last_year last_month [] st = (None, st)"
| "years_loop join last_year last_month (year # ys) st =
     (case year_head year of
        Inl e \<Rightarrow> (Some e, st)
      | Inr (year_value, months) \<Rightarrow>
          let st' = months_loop join last_year last_month year_value months st
          in if stop_processing st' then (None, st')
             else years_loop join last_year last_month ys st')"

text \<open>The year entries: the matching direct children of the listing container.\<close>

definition year_entries :: "node \<Rightarrow> node list" where
  "year_entries main = find_all main ''li'' ''asociada-item'' False"

text \<open>Lines 74 to 145: from the parsed page to the list \<^verbatim>\<open>links\<close>.\<close>

definition walk ::
  "(string \<Rightarrow> string \<Rightarrow> string) \<Rightarrow> node \<Rightarrow> json \<Rightarrow> json \<Rightarrow> exn option \<times> walk_state"
where
  "walk join soup last_year last_month =
     (let st0 = \<lparr>links = [], stop_processing = False,
                 messages = [(INFO, ''Retrieving CSV file links...'')]\<rparr>
      in case find_bs soup ''ul'' ''asociada-list trancateList docs'' of
           None \<Rightarrow> (Some (ValueError ''Main document list container not found.''), st0)
         | Some main \<Rightarrow>
             if \<not> is_Tag main
             then (Some (ValueError ''Main document list container not found.''), st0)
             else
               let years = year_entries main
               in if years = [] then (Some (ValueError ''No year elements found.''), st0)
                  else years_loop join last_year last_month years st0)"

section \<open>get_data: merging and saving\<close>

text \<open>\<^verbatim>\<open>links + [item for item in existing_links if item not in links]\<close>\<close>

definition merge_links :: "json list \<Rightarrow> json list \<Rightarrow> json list" where
  "merge_links new existing = new @ filter (\<lambda>item. \<not> py_in item new) existing"

text \<open>
  Lines 156 and 157. Opening the file for writing cuts it to zero bytes, then
  \<^verbatim>\<open>json.dump\<close> writes the list. The write is not atomic: if the dump raised, the file would
  stay cut. On the values of this model the dump completes, since every code point below
  U+0100 has a UTF-8 encoding; a stored string with a lone surrogate, on which the dump
  raises \<^verbatim>\<open>UnicodeEncodeError\<close> after the file is cut, is outside the model. Nothing below
  states that the file survives an exception raised while saving.
\<close>

definition write_links :: "json list \<Rightarrow> world \<Rightarrow> exn option \<times> world" where
  "write_links all_links w =
     (let w' = w\<lparr>store := Some ZeroBytes\<rparr>
      in (None, w'\<lparr>store := Some (Parsed (JArr all_links))\<rparr>))"

text \<open>Lines 147 to 157: the file is read if it exists, and then overwritten.\<close>

definition save_links :: "json list \<Rightarrow> world \<Rightarrow> exn option \<times> world" where
  "save_links new w =
     (case store w of
        None \<Rightarrow> write_links new w
      | Some f \<Rightarrow>
          (case json_load f of
             Inl e \<Rightarrow> (Some e, w)
           | Inr existing_links \<Rightarrow>
               (case py_iter existing_links of
                  Inl e \<Rightarrow> (Some e, w)
                | Inr items \<Rightarrow> write_links (merge_links new items) w)))"

text \<open>
  The whole function. The handler around \<^verbatim>\<open>urlopen\<close> catches \<^verbatim>\<open>requests.RequestException\<close>
  only, which \<^verbatim>\<open>urlopen\<close> does not raise: an exception of the fetch leaves the function
  as it is, with nothing logged.
\<close>

definition get_data :: "env \<Rightarrow> string \<Rightarrow> json \<Rightarrow> json \<Rightarrow> world \<Rightarrow> exn option \<times> world" where
  "get_data E url last_year last_month w =
     (case fetch E url of
        Inl e \<Rightarrow> (Some e, w)
      | Inr soup \<Rightarrow>
          (case walk (urljoin E) soup last_year last_month of
             (Some e, st) \<Rightarrow> (Some e, w\<lparr>logged := logged w @ messages st\<rparr>)
           | (None, st) \<Rightarrow> save_links (links st) (w\<lparr>logged := logged w @ messages st\<rparr>)))"

text \<open>The entry point: the checkpoint is read, then the page is walked.\<close>

definition main :: "env \<Rightarrow> world \<Rightarrow> exn option \<times> world" where
  "main E w =
     (case get_last_data w of
        (Inl e, w') \<Rightarrow> (Some e, w')
      | (Inr (last_year, last_month), w') \<Rightarrow> get_data E MAIN_URL last_year last_month w')"

section \<open>Pages and predicates used to state the properties\<close>

text \<open>
  Builders for pages with the layout the walk expects: a title paragraph, a ZIP anchor,
  a listing item, a month entry (title and link container), a year entry (title and its
  months inside a nested list), the listing container, and the page around it.
\<close>

definition title :: "string \<Rightarrow> node" where
  "title s = Tag ''p'' [(''class'', AttrList [''info-title''])] [NavigableString s]"

definition zip_anchor :: "string \<Rightarrow> node" where
  "zip_anchor href =
     Tag ''a'' [(''class'', AttrList [''asociada-link'', ''ico-zip'']), (''href'', AttrStr href)]
       [NavigableString ''Descarga'']"

definition item :: "node list \<Rightarrow> node" where
  "item cs = Tag ''li'' [(''class'', AttrList [''asociada-item''])] cs"

definition month_item :: "string \<Rightarrow> string \<Rightarrow> node" where
  "month_item label href = item [title label, Tag ''ul'' [] [item [zip_anchor href]]]"

definition year_item :: "string \<Rightarrow> node list \<Rightarrow> node" where
  "year_item label months = item [title label, Tag ''ul'' [] months]"

definition container_of :: "node list \<Rightarrow> node" where
  "container_of years =
     Tag ''ul'' [(''class'', AttrList [''asociada-list'', ''trancateList'', ''docs''])] years"

definition listing :: "node list \<Rightarrow> node" where
  "listing years = Tag ''[document]'' [] [Tag ''html'' [] [Tag ''body'' [] [container_of years]]]"

text \<open>
  The walk as the specification describes it when there is no checkpoint: every month
  entry of every year entry goes through the loop body, and nothing ends a loop early.
\<close>

definition scan_months ::
  "(string \<Rightarrow> string \<Rightarrow> string) \<Rightarrow> string \<Rightarrow> node list \<Rightarrow> walk_state \<Rightarrow> walk_state"
where
  "scan_months join year_value ms st =
     foldl (\<lambda>s m. snd (month_body join JNull JNull year_value m s)) st ms"

fun scan_years ::
  "(string \<Rightarrow> string \<Rightarrow> string) \<Rightarrow> node list \<Rightarrow> walk_state \<Rightarrow> exn option \<times> walk_state"
where
  "scan_years join [] st = (None, st)"
| "scan_years join (year # ys) st =
     (case year_head year of
        Inl e \<Rightarrow> (Some e, st)
      | Inr (year_value, months) \<Rightarrow> scan_years join ys (scan_months join year_value months st))"

definition full_scan :: "(string \<Rightarrow> string \<Rightarrow> string) \<Rightarrow> node \<Rightarrow> exn option \<times> walk_state" where
  "full_scan join soup =
     (let st0 = \<lparr>links = [], stop_processing = False,
                 messages = [(INFO, ''Retrieving CSV file links...'')]\<rparr>
      in case find_bs soup ''ul'' ''asociada-list trancateList docs'' of
           None \<Rightarrow> (Some (ValueError ''Main document list container not found.''), st0)
         | Some container \<Rightarrow>
             if year_entries container = []
             then (Some (ValueError ''No year elements found.''), st0)
             else scan_years join (year_entries container) st0)"

text \<open>A candidate month entry has a title when the title search below it finds one.\<close>

definition has_title :: "node \<Rightarrow> bool" where
  "has_title m = (case find_bs m ''p'' ''info-title'' of None \<Rightarrow> False | Some t \<Rightarrow> True)"

text \<open>The month entry's label is the checkpoint's month, in a year labelled \<open>year_value\<close>.\<close>

definition stops_at :: "json \<Rightarrow> json \<Rightarrow> string \<Rightarrow> node \<Rightarrow> bool" where
  "stops_at last_year last_month year_value m =
     (case find_bs m ''p'' ''info-title'' of
        None \<Rightarrow> False
      | Some t \<Rightarrow> at_checkpoint last_year last_month year_value (get_text t))"

text \<open>
  The walk passes a year entry when the entry has a title and month entries, and none
  of its month entries is at the checkpoint.
\<close>

definition year_passes :: "json \<Rightarrow> json \<Rightarrow> node \<Rightarrow> bool" where
  "year_passes last_year last_month year =
     (case year_head year of
        Inl e \<Rightarrow> False
      | Inr (year_value, months) \<Rightarrow> \<not> list_ex (stops_at last_year last_month year_value) months)"

text \<open>All candidate month entries of the page that have a title, year by year.\<close>

definition titled_entries :: "node \<Rightarrow> node list" where
  "titled_entries soup =
     (case find_bs soup ''ul'' ''asociada-list trancateList docs'' of
        None \<Rightarrow> []
      | Some container \<Rightarrow>
          filter has_title (concat (map month_entries (year_entries container))))"

text \<open>
  A concrete setting for the examples: \<^verbatim>\<open>urljoin\<close> on a base without a path and a
  reference that is an absolute path appends the reference to the base, and the fetched
  page lists March and February 2025 and December 2024.
\<close>

definition join0 :: "string \<Rightarrow> string \<Rightarrow> string" where
  "join0 b h = b @ h"

definition page0 :: node where
  "page0 =
     listing
       [year_item ''2025'' [month_item ''03'' ''/a3.zip'', month_item ''02'' ''/a2.zip''],
        year_item ''2024'' [month_item ''12'' ''/b12.zip'']]"

definition env0 :: env where
  "env0 = \<lparr>urljoin = join0, fetch = (\<lambda>url. Inr page0)\<rparr>"

definition rec_a :: json where
  "rec_a = record_of ''2025'' ''03'' ''https://datos.madrid.es/a3.zip''"

definition rec_b :: json where
  "rec_b = record_of ''2025'' ''02'' ''https://datos.madrid.es/a2.zip''"

definition rec_c :: json where
  "rec_c = record_of ''2024'' ''12'' ''https://datos.madrid.es/b12.zip''"

definition env_of :: "node \<Rightarrow> env" where
  "env_of page = \<lparr>urljoin = join0, fetch = (\<lambda>url. Inr page)\<rparr>"

text \<open>A page whose second year entry has neither a title nor month entries.\<close>

definition page1 :: node where
  "page1 =
     listing
       [year_item ''2025'' [month_item ''03'' ''/a3.zip'', month_item ''02'' ''/a2.zip''],
        item []]"

text \<open>A page whose first month entry has a title and nothing else.\<close>

definition page2 :: node where
  "page2 = listing [year_item ''2025'' [item [title ''02''], month_item ''01'' ''/a1.zip'']]"

section \<open>Facts about the search functions\<close>

lemma matches_is_Tag: "matches nm cls x \<Longrightarrow> is_Tag x"
  by (cases x) simp_all

lemma find_all_matches: "x \<in> set (find_all t nm cls r) \<Longrightarrow> matches nm cls x"
  by (simp add: find_all_def)

lemma find_bs_in_find_all: "find_bs t nm cls = Some x \<Longrightarrow> x \<in> set (find_all t nm cls True)"
  by (cases "find_all t nm cls True") (simp_all add: find_bs_def)

lemma find_bs_is_Tag: "find_bs t nm cls = Some x \<Longrightarrow> is_Tag x"
  using find_bs_in_find_all find_all_matches matches_is_Tag by blast

lemma descendants_trans:
  "y \<in> set (descendants z) \<Longrightarrow> x \<in> set (descendants y) \<Longrightarrow> x \<in> set (descendants z)"
proof (induction z arbitrary: y)
  case (Tag n a cs)
  from Tag.prems(1) obtain c where c: "c \<in> set cs" "y = c \<or> y \<in> set (descendants c)"
    by auto
  from c(2) have "x \<in> set (descendants c)"
  proof
    assume "y = c"
    with Tag.prems(2) show ?thesis by simp
  next
    assume "y \<in> set (descendants c)"
    with Tag.IH c(1) Tag.prems(2) show ?thesis by blast
  qed
  with c(1) show ?case by auto
qed simp_all

lemma children_descendants: "c \<in> set (children t) \<Longrightarrow> c \<in> set (descendants t)"
  by (cases t) auto

section \<open>Facts about the two loops\<close>

lemma at_checkpoint_unset:
  "\<not> truthy last_year \<or> \<not> truthy last_month \<Longrightarrow> \<not> at_checkpoint last_year last_month yv mv"
  by (auto simp: at_checkpoint_def)

lemma at_checkpoint_eq:
  "at_checkpoint last_year last_month yv mv \<longleftrightarrow>
     truthy last_year \<and> truthy last_month \<and> last_year = JStr yv \<and> last_month = JStr mv"
  by (auto simp: at_checkpoint_def)

lemma find_bs_not_Tag: "\<not> is_Tag m \<Longrightarrow> find_bs m nm cls = None"
  by (cases m) (simp_all add: find_bs_def find_all_def)

lemma month_body_Break:
  "fst (month_body join last_year last_month yv m st) = Break \<longleftrightarrow> stops_at last_year last_month yv m"
  by (cases "is_Tag m")
     (auto simp: month_body_def stops_at_def Let_def find_bs_not_Tag
           split: option.splits attr_value.splits)

lemma month_body_stop_flag:
  "stop_processing (snd (month_body join last_year last_month yv m st)) =
     (stop_processing st \<or> stops_at last_year last_month yv m)"
  by (cases "is_Tag m")
     (auto simp: month_body_def stops_at_def Let_def find_bs_not_Tag emit_def
           split: option.splits attr_value.splits)

lemma month_body_unset:
  "\<not> truthy last_year \<or> \<not> truthy last_month \<Longrightarrow>
     month_body join last_year last_month yv m st = (Next, snd (month_body join JNull JNull yv m st))"
  by (auto simp: month_body_def at_checkpoint_def Let_def
           split: option.splits attr_value.splits)

lemma months_loop_unset:
  "\<not> truthy last_year \<or> \<not> truthy last_month \<Longrightarrow>
     months_loop join last_year last_month yv ms st = scan_months join yv ms st"
proof (induction ms arbitrary: st)
  case Nil
  show ?case by (simp add: scan_months_def)
next
  case (Cons m ms)
  from Cons.prems have "month_body join last_year last_month yv m st
      = (Next, snd (month_body join JNull JNull yv m st))"
    by (rule month_body_unset)
  with Cons.IH [OF Cons.prems] show ?case by (simp add: scan_months_def)
qed

lemma months_loop_stop_flag:
  "stop_processing (months_loop join last_year last_month yv ms st) =
     (stop_processing st \<or> list_ex (stops_at last_year last_month yv) ms)"
proof (induction ms arbitrary: st)
  case Nil
  show ?case by simp
next
  case (Cons m ms)
  obtain c st' where b: "month_body join last_year last_month yv m st = (c, st')"
    by (cases "month_body join last_year last_month yv m st")
  have f: "stop_processing st' = (stop_processing st \<or> stops_at last_year last_month yv m)"
    using month_body_stop_flag [of join last_year last_month yv m st] b by simp
  have c: "c = Break \<longleftrightarrow> stops_at last_year last_month yv m"
    using month_body_Break [of join last_year last_month yv m st] b by simp
  show ?case
  proof (cases c)
    case Next
    with b c f Cons.IH [of st'] show ?thesis by simp
  next
    case Break
    with b c f show ?thesis by simp
  qed
qed

lemma years_loop_unset:
  "\<not> truthy last_year \<or> \<not> truthy last_month \<Longrightarrow> \<not> stop_processing st \<Longrightarrow>
     years_loop join last_year last_month ys st = scan_years join ys st"
proof (induction ys arbitrary: st)
  case Nil
  show ?case by simp
next
  case (Cons y ys)
  show ?case
  proof (cases "year_head y")
    case (Inl e)
    then show ?thesis by simp
  next
    case (Inr p)
    obtain yv months where p: "p = (yv, months)" by (cases p)
    have eq: "months_loop join last_year last_month yv months st = scan_months join yv months st"
      using Cons.prems(1) by (rule months_loop_unset)
    have "\<not> list_ex (stops_at last_year last_month yv) months"
      using Cons.prems(1) by (auto simp: list_ex_iff stops_at_def at_checkpoint_unset split: option.splits)
    then have ns: "\<not> stop_processing (scan_months join yv months st)"
      using months_loop_stop_flag [of join last_year last_month yv months st] Cons.prems(2) eq
      by simp
    from Cons.IH [OF Cons.prems(1) ns] Inr p eq ns show ?thesis by simp
  qed
qed

lemma scan_months_stop_flag:
  "stop_processing (scan_months join yv ms st) = stop_processing st"
proof -
  have "scan_months join yv ms st = months_loop join JNull JNull yv ms st"
    by (simp add: months_loop_unset)
  moreover have "\<not> list_ex (stops_at JNull JNull yv) ms"
    by (auto simp: list_ex_iff stops_at_def at_checkpoint_def split: option.splits)
  ultimately show ?thesis by (simp add: months_loop_stop_flag)
qed

lemma scan_years_stop_flag:
  "stop_processing (snd (scan_years join ys st)) = stop_processing st"
  by (induction ys arbitrary: st) (auto simp: scan_months_stop_flag split: sum.splits)

lemma full_scan_stop_flag: "\<not> stop_processing (snd (full_scan join soup))"
  by (simp add: full_scan_def Let_def scan_years_stop_flag split: option.splits)

lemma py_eq_record_of:
  "py_eq (record_of y m l) (record_of y' m' l') \<longleftrightarrow> y = y' \<and> m = m' \<and> l = l'"
  by (auto simp: record_of_def)

section \<open>The walk on the example pages\<close>

lemmas page_defs =
  listing_def container_of_def year_item_def month_item_def item_def title_def zip_anchor_def

lemmas walk_defs =
  walk_def find_bs_def find_all_def year_entries_def year_head_def month_entries_def
  month_body_def get_text_def strip_def py_isspace_def at_checkpoint_def emit_def Let_def

lemma full_scan_page0:
  "full_scan join0 page0 =
     (None,
      \<lparr>links = [rec_a, rec_b, rec_c],
         stop_processing = False,
         messages = [(INFO, ''Retrieving CSV file links...''),
                     (INFO, ''2025 03: https://datos.madrid.es/a3.zip''),
                     (INFO, ''2025 02: https://datos.madrid.es/a2.zip''),
                     (INFO, ''2024 12: https://datos.madrid.es/b12.zip'')]\<rparr>)"
  by (simp add: full_scan_def page0_def join0_def rec_a_def rec_b_def rec_c_def page_defs
      find_bs_def find_all_def year_entries_def year_head_def month_entries_def month_body_def
      scan_months_def get_text_def strip_def py_isspace_def at_checkpoint_def emit_def Let_def
      BASE_URL_def)

lemma walk_page0_2024_12:
  "walk join0 page0 (JStr ''2024'') (JStr ''12'') =
     (None,
      \<lparr>links = [rec_a, rec_b], stop_processing = True,
         messages = [(INFO, ''Retrieving CSV file links...''),
                     (INFO, ''2025 03: https://datos.madrid.es/a3.zip''),
                     (INFO, ''2025 02: https://datos.madrid.es/a2.zip''),
                     (INFO, ''The rest of the data has already been processed. Exiting.'')]\<rparr>)"
  by (simp add: page0_def join0_def rec_a_def rec_b_def BASE_URL_def page_defs walk_defs)

lemma walk_page0_2025_03:
  "walk join0 page0 (JStr ''2025'') (JStr ''03'') =
     (None,
      \<lparr>links = [], stop_processing = True,
         messages = [(INFO, ''Retrieving CSV file links...''),
                     (INFO, ''The rest of the data has already been processed. Exiting.'')]\<rparr>)"
  by (simp add: page0_def join0_def BASE_URL_def page_defs walk_defs)

section \<open>Facts about exceptions\<close>

lemma year_passes_step:
  assumes "year_passes last_year last_month y" and "\<not> stop_processing st"
  shows "\<exists>st'. \<not> stop_processing st' \<and>
           years_loop join last_year last_month (y # ys) st = years_loop join last_year last_month ys st'"
proof -
  from assms(1) obtain yv months where h: "year_head y = Inr (yv, months)"
    and n: "\<not> list_ex (stops_at last_year last_month yv) months"
    by (auto simp: year_passes_def split: sum.splits)
  let ?st = "months_loop join last_year last_month yv months st"
  have "\<not> stop_processing ?st" using n assms(2) by (simp add: months_loop_stop_flag)
  moreover from this h
  have "years_loop join last_year last_month (y # ys) st = years_loop join last_year last_month ys ?st"
    by simp
  ultimately show ?thesis by blast
qed

lemma years_loop_defect:
  "list_all (year_passes last_year last_month) pre \<Longrightarrow> \<not> stop_processing st \<Longrightarrow>
   year_head y = Inl e \<Longrightarrow>
     fst (years_loop join last_year last_month (pre @ y # post) st) = Some e"
proof (induction pre arbitrary: st)
  case Nil
  then show ?case by simp
next
  case (Cons p pre)
  from Cons.prems(1) have p: "year_passes last_year last_month p"
    and r: "list_all (year_passes last_year last_month) pre" by simp_all
  from year_passes_step [OF p Cons.prems(2), of join "pre @ y # post"]
  obtain st' where s: "\<not> stop_processing st'"
    and e: "years_loop join last_year last_month (p # pre @ y # post) st
              = years_loop join last_year last_month (pre @ y # post) st'"
    by blast
  from Cons.IH [OF r s Cons.prems(3)] e show ?case by simp
qed

lemma walk_defect:
  assumes "find_bs soup ''ul'' ''asociada-list trancateList docs'' = Some c"
    and "year_entries c = pre @ y # post"
    and "list_all (year_passes last_year last_month) pre"
    and "year_head y = Inl e"
  shows "fst (walk join soup last_year last_month) = Some e"
  using assms find_bs_is_Tag [OF assms(1)]
  by (simp add: walk_def Let_def years_loop_defect)

text \<open>
  An exception of the walk leaves \<open>get_data\<close> before line 147: the record file is
  neither read nor opened.
\<close>

lemma get_data_walk_raises:
  "fetch E url = Inr soup \<Longrightarrow> fst (walk (urljoin E) soup last_year last_month) = Some e \<Longrightarrow>
     fst (get_data E url last_year last_month w) = Some e \<and>
     store (snd (get_data E url last_year last_month w)) = store w"
  by (auto simp: get_data_def split: prod.splits option.splits)

section \<open>Facts about the number of records\<close>

lemma month_body_links_bound:
  "length (links (snd (month_body join last_year last_month yv m st)))
     \<le> length (links st) + (if has_title m then 1 else 0)"
  by (cases "is_Tag m")
     (auto simp: month_body_def has_title_def Let_def emit_def find_bs_not_Tag
           split: option.splits attr_value.splits)

lemma months_loop_links_bound:
  "length (links (months_loop join last_year last_month yv ms st))
     \<le> length (links st) + length (filter has_title ms)"
proof (induction ms arbitrary: st)
  case Nil
  show ?case by simp
next
  case (Cons m ms)
  obtain c st' where b: "month_body join last_year last_month yv m st = (c, st')"
    by (cases "month_body join last_year last_month yv m st")
  have s: "length (links st') \<le> length (links st) + (if has_title m then 1 else 0)"
    using month_body_links_bound [of join last_year last_month yv m st] b by simp
  show ?case
  proof (cases c)
    case Next
    with b have "months_loop join last_year last_month yv (m # ms) st
        = months_loop join last_year last_month yv ms st'" by simp
    then have "length (links (months_loop join last_year last_month yv (m # ms) st))
        \<le> length (links st') + length (filter has_title ms)"
      using Cons.IH [of st'] by simp
    with s show ?thesis by (simp split: if_splits)
  next
    case Break
    with b have "months_loop join last_year last_month yv (m # ms) st = st'" by simp
    with s show ?thesis by (simp split: if_splits)
  qed
qed

lemma year_head_months: "year_head y = Inr (yv, months) \<Longrightarrow> months = month_entries y"
  by (auto simp: year_head_def Let_def split: if_splits option.splits)

lemma years_loop_links_bound:
  "length (links (snd (years_loop join last_year last_month ys st)))
     \<le> length (links st) + length (filter has_title (concat (map month_entries ys)))"
proof (induction ys arbitrary: st)
  case Nil
  show ?case by simp
next
  case (Cons y ys)
  show ?case
  proof (cases "year_head y")
    case (Inl e)
    then show ?thesis by simp
  next
    case (Inr p)
    obtain yv months where p: "p = (yv, months)" by (cases p)
    with Inr have m: "months = month_entries y" by (simp add: year_head_months)
    let ?st = "months_loop join last_year last_month yv months st"
    have s: "length (links ?st) \<le> length (links st) + length (filter has_title (month_entries y))"
      using months_loop_links_bound [of join last_year last_month yv months st] m by simp
    show ?thesis
    proof (cases "stop_processing ?st")
      case True
      with Inr p s show ?thesis by simp
    next
      case False
      with Inr p have "years_loop join last_year last_month (y # ys) st
          = years_loop join last_year last_month ys ?st" by simp
      then have "length (links (snd (years_loop join last_year last_month (y # ys) st)))
          \<le> length (links ?st) + length (filter has_title (concat (map month_entries ys)))"
        using Cons.IH [of ?st] by simp
      with s show ?thesis by simp
    qed
  qed
qed

lemma walk_links_bound:
  "length (links (snd (walk join soup last_year last_month))) \<le> length (titled_entries soup)"
proof (cases "find_bs soup ''ul'' ''asociada-list trancateList docs''")
  case None
  then show ?thesis by (simp add: walk_def)
next
  case (Some c)
  let ?st0 = "\<lparr>links = [], stop_processing = False,
                 messages = [(INFO, ''Retrieving CSV file links...'')]\<rparr>"
  show ?thesis
  proof (cases "year_entries c = []")
    case True
    with Some find_bs_is_Tag [OF Some] show ?thesis by (simp add: walk_def)
  next
    case False
    with Some find_bs_is_Tag [OF Some]
    have "walk join soup last_year last_month = years_loop join last_year last_month (year_entries c) ?st0"
      by (simp add: walk_def)
    with years_loop_links_bound [of join last_year last_month "year_entries c" ?st0] Some
    show ?thesis by (simp add: titled_entries_def)
  qed
qed

lemma find_all_nested:
  "m \<in> set (find_all y nm cls True) \<Longrightarrow> l \<in> set (find_all m nm cls True) \<Longrightarrow>
     l \<in> set (find_all y nm cls True)"
  by (auto simp: find_all_def intro: descendants_trans)

section \<open>The checkpoint read from the record file\<close>

text \<open>
  The paths of \<open>get_last_data\<close> that the code guards: with no file, and with a file that
  decodes to an empty value (an empty list), it returns two empty strings; with a list
  that starts with a record it returns the record's year and month. The file is never
  changed.
\<close>

lemma get_last_data_guarded:
  "(store w = None \<longrightarrow> fst (get_last_data w) = Inr (JStr '''', JStr ''''))
   \<and> (\<forall>d. store w = Some (Parsed d) \<and> \<not> truthy d \<longrightarrow>
          fst (get_last_data w) = Inr (JStr '''', JStr ''''))
   \<and> (\<forall>y m l rest. store w = Some (Parsed (JArr (record_of y m l # rest))) \<longrightarrow>
          fst (get_last_data w) = Inr (JStr y, JStr m))
   \<and> store (snd (get_last_data w)) = store w"
  by (auto simp: get_last_data_def logging_def record_of_def split: option.splits sum.splits)

text \<open>
  Claim C3 says that \<open>get_last_data\<close> returns the year and month of the first stored
  record, returns two empty strings whenever the record file is missing, empty or
  malformed, and in none of these cases raises or ends the run; the docstring promises
  the same (the pair if data exists, two empty strings otherwise). The code does this
  for a missing file and for an empty list, but \<^verbatim>\<open>json.load\<close> at line 33 stands outside
  any handler. With a record file of zero bytes \<open>get_last_data\<close> raises
  \<open>JSONDecodeError\<close> and \<open>main\<close> ends with that exception before the page is fetched;
  text that is not a JSON document raises the same, and bytes that are not UTF-8 raise
  \<open>UnicodeDecodeError\<close>.
\<close>

theorem get_last_data_malformed_raises:
  "get_last_data \<lparr>store = Some ZeroBytes, logged = []\<rparr>
     = (Inl JSONDecodeError, \<lparr>store = Some ZeroBytes, logged = []\<rparr>)
   \<and> fst (main env0 \<lparr>store = Some ZeroBytes, logged = []\<rparr>) = Some JSONDecodeError
   \<and> fst (get_last_data \<lparr>store = Some NotJSON, logged = []\<rparr>) = Inl JSONDecodeError
   \<and> fst (get_last_data \<lparr>store = Some NotUTF8, logged = []\<rparr>) = Inl UnicodeDecodeError"
  by (simp add: get_last_data_def main_def)

text \<open>
  Claim C9, as the code has it. When the record file holds a list whose first element is
  an object, \<open>get_last_data\<close> raises nothing; each component of the checkpoint is the
  value stored under its key, and the empty string when the key is absent. A component is
  therefore non-empty exactly when its key is present with a non-empty value.
\<close>

theorem get_last_data_field_fallback:
  assumes "store w = Some (Parsed (JArr (JObj kvs # rest)))"
  shows "\<exists>ly lm. fst (get_last_data w) = Inr (ly, lm)
           \<and> ly = (case map_of kvs ''year'' of None \<Rightarrow> JStr '''' | Some v \<Rightarrow> v)
           \<and> lm = (case map_of kvs ''month'' of None \<Rightarrow> JStr '''' | Some v \<Rightarrow> v)
           \<and> (truthy ly \<longleftrightarrow> (\<exists>v. map_of kvs ''year'' = Some v \<and> truthy v))
           \<and> (truthy lm \<longleftrightarrow> (\<exists>v. map_of kvs ''month'' = Some v \<and> truthy v))"
  using assms by (auto simp: get_last_data_def split: option.splits)

text \<open>A first record with only a year, and one with only a month.\<close>

theorem get_last_data_field_fallback_witness:
  "fst (get_last_data
          \<lparr>store = Some (Parsed (JArr [JObj [(''year'', JStr ''2024'')]])), logged = []\<rparr>)
     = Inr (JStr ''2024'', JStr '''')
   \<and> fst (get_last_data
          \<lparr>store = Some (Parsed (JArr [JObj [(''month'', JStr ''12'')]])), logged = []\<rparr>)
     = Inr (JStr '''', JStr ''12'')"
  using
    get_last_data_field_fallback
      [of "\<lparr>store = Some (Parsed (JArr [JObj [(''year'', JStr ''2024'')]])), logged = []\<rparr>"
          "[(''year'', JStr ''2024'')]" "[]"]
    get_last_data_field_fallback
      [of "\<lparr>store = Some (Parsed (JArr [JObj [(''month'', JStr ''12'')]])), logged = []\<rparr>"
          "[(''month'', JStr ''12'')]" "[]"]
  by simp

text \<open>
  Claim C9 as stated fails: a first record that has the year key only, with the empty
  string as its value, gives a checkpoint with no non-empty component.
\<close>

theorem get_last_data_empty_year_value:
  "fst (get_last_data
          \<lparr>store = Some (Parsed (JArr [JObj [(''year'', JStr '''')]])), logged = []\<rparr>)
     = Inr (JStr '''', JStr '''')"
  by (simp add: get_last_data_def)

section \<open>The early stop\<close>

text \<open>
  Claim C1. The page lists the years 2025 and 2024, with the months 03, 02 and 01 under
  2025; the checkpoint is 2025/02. Whatever the three links are, whatever \<^verbatim>\<open>urljoin\<close>
  does and whatever stands under 2024, the walk raises nothing and collects exactly one
  record, the one of 2025/03: the entry 02 ends both loops and yields no record, the
  entry 01 and the year 2024 are never looked at (the result does not depend on \<open>h2\<close>,
  \<open>h1\<close> or \<open>ms\<close>).
\<close>

theorem early_stop_boundary:
  "walk join
     (listing
        [year_item ''2025'' [month_item ''03'' h3, month_item ''02'' h2, month_item ''01'' h1],
         year_item ''2024'' ms])
     (JStr ''2025'') (JStr ''02'')
   = (None,
      \<lparr>links = [record_of ''2025'' ''03'' (join BASE_URL h3)],
         stop_processing = True,
         messages = [(INFO, ''Retrieving CSV file links...''),
                     (INFO, ''2025 03: '' @ join BASE_URL h3),
                     (INFO, ''The rest of the data has already been processed. Exiting.'')]\<rparr>)"
  by (simp add: page_defs walk_defs)

text \<open>The same with concrete links.\<close>

theorem early_stop_boundary_witness:
  "links (snd (walk join0
     (listing
        [year_item ''2025''
           [month_item ''03'' ''/a3.zip'', month_item ''02'' ''/a2.zip'',
            month_item ''01'' ''/a1.zip''],
         year_item ''2024'' [month_item ''12'' ''/b12.zip'']])
     (JStr ''2025'') (JStr ''02'')))
   = [JObj [(''year'', JStr ''2025''), (''month'', JStr ''03''),
            (''link'', JStr ''https://datos.madrid.es/a3.zip'')]]"
  using early_stop_boundary
    [of join0 "''/a3.zip''" "''/a2.zip''" "''/a1.zip''" "[month_item ''12'' ''/b12.zip'']"]
  by (simp add: record_of_def join0_def BASE_URL_def)

text \<open>
  Claim C4. The inner loop breaks at an entry only if both checkpoint components are
  non-empty, the year's label equals the first and the entry's label equals the second.
  When a component of the checkpoint is empty, no loop ends early: the walk is the full
  scan, in which every month entry of every year entry goes through the loop body, and
  the flag \<^verbatim>\<open>stop_processing\<close> stays false.
\<close>

theorem early_stop_only_at_checkpoint:
  "(fst (month_body join last_year last_month yv m st) = Break \<longrightarrow>
      truthy last_year \<and> truthy last_month \<and> last_year = JStr yv \<and>
      (\<exists>t. find_bs m ''p'' ''info-title'' = Some t \<and> last_month = JStr (get_text t)))
   \<and> (\<not> truthy last_year \<or> \<not> truthy last_month \<longrightarrow>
        walk join soup last_year last_month = full_scan join soup
        \<and> \<not> stop_processing (snd (walk join soup last_year last_month))
        \<and> (\<forall>ms s. months_loop join last_year last_month yv ms s = scan_months join yv ms s))"
proof (intro conjI impI)
  assume "fst (month_body join last_year last_month yv m st) = Break"
  then have "stops_at last_year last_month yv m" by (simp add: month_body_Break)
  then show "truthy last_year" "truthy last_month" "last_year = JStr yv"
    "\<exists>t. find_bs m ''p'' ''info-title'' = Some t \<and> last_month = JStr (get_text t)"
    by (auto simp: stops_at_def at_checkpoint_eq split: option.splits)
next
  assume u: "\<not> truthy last_year \<or> \<not> truthy last_month"
  show w: "walk join soup last_year last_month = full_scan join soup"
    using u
    by (auto simp: walk_def full_scan_def Let_def years_loop_unset find_bs_is_Tag
             split: option.splits)
  show "\<forall>ms s. months_loop join last_year last_month yv ms s = scan_months join yv ms s"
    using u by (simp add: months_loop_unset)
  show "\<not> stop_processing (snd (walk join soup last_year last_month))"
    by (simp add: w full_scan_stop_flag)
qed

text \<open>
  With a checkpoint whose year is empty and whose month is 02, the walk over the example
  page collects all three records, the one of 2025/02 included; and the break at the
  entry 02 under the checkpoint 2025/02 has both components non-empty.
\<close>

theorem early_stop_only_at_checkpoint_witness:
  "links (snd (walk join0 page0 (JStr []) (JStr ''02''))) = [rec_a, rec_b, rec_c]
   \<and> \<not> stop_processing (snd (walk join0 page0 (JStr []) (JStr ''02'')))
   \<and> fst (month_body join0 (JStr ''2025'') (JStr ''02'') ''2025'' (month_item ''02'' ''/a2.zip'')
            \<lparr>links = [], stop_processing = False, messages = []\<rparr>) = Break
   \<and> truthy (JStr ''2025'') \<and> truthy (JStr ''02'')"
proof -
  let ?st = "\<lparr>links = [], stop_processing = False, messages = []\<rparr>"
  have b: "fst (month_body join0 (JStr ''2025'') (JStr ''02'') ''2025''
                  (month_item ''02'' ''/a2.zip'') ?st) = Break"
    by (simp add: page_defs walk_defs)
  have u: "\<not> truthy (JStr []) \<or> \<not> truthy (JStr ''02'')" by simp
  from early_stop_only_at_checkpoint
         [of join0 "JStr []" "JStr ''02''" "''2025''" "month_item ''02'' ''/a2.zip''" ?st page0]
       u
  have "walk join0 page0 (JStr []) (JStr ''02'') = full_scan join0 page0"
    and "\<not> stop_processing (snd (walk join0 page0 (JStr []) (JStr ''02'')))"
    by blast+
  moreover
  from early_stop_only_at_checkpoint
         [of join0 "JStr ''2025''" "JStr ''02''" "''2025''" "month_item ''02'' ''/a2.zip''" ?st
             page0]
       b
  have "truthy (JStr ''2025'') \<and> truthy (JStr ''02'')" by blast
  ultimately show ?thesis using b by (simp add: full_scan_page0)
qed

section \<open>Merging into the record file\<close>

text \<open>
  Claim C2. When the page is fetched and the walk ends without an exception, the file
  written by \<open>get_data\<close> holds the new records, followed by the stored elements that are
  equal to none of the new records, in their stored order. With no file before, it holds
  the new records. For records A, B and C, with C different from A and from B, new records
  A, B and stored records B, C merge to A, B, C.
\<close>

theorem merge_new_first:
  assumes "fetch E url = Inr soup"
    and "walk (urljoin E) soup last_year last_month = (None, st)"
  shows "(store w = Some (Parsed (JArr existing)) \<longrightarrow>
            get_data E url last_year last_month w =
              (None,
               w\<lparr>logged := logged w @ messages st,
                 store := Some (Parsed (JArr
                   (links st @
                    filter (\<lambda>item. \<not> list_ex (\<lambda>new. py_eq new item) (links st)) existing)))\<rparr>))
         \<and> (store w = None \<longrightarrow>
              store (snd (get_data E url last_year last_month w)) =
                Some (Parsed (JArr (links st))))
         \<and> (record_of yc mc lc \<noteq> record_of ya ma la \<and>
            record_of yc mc lc \<noteq> record_of yb mb lb \<longrightarrow>
              merge_links [record_of ya ma la, record_of yb mb lb]
                          [record_of yb mb lb, record_of yc mc lc]
                = [record_of ya ma la, record_of yb mb lb, record_of yc mc lc])"
  using assms
  by (auto simp: get_data_def save_links_def write_links_def merge_links_def py_in_def
        py_eq_record_of)

text \<open>
  On the example page with the checkpoint 2024/12 the walk finds the records of 2025/03
  and 2025/02; the file held the records of 2025/02 and 2024/12, and holds all three
  afterwards, the new ones first. With no file before, the file holds the two new records.
\<close>

theorem merge_new_first_witness:
  "get_data env0 MAIN_URL (JStr ''2024'') (JStr ''12'')
     \<lparr>store = Some (Parsed (JArr [rec_b, rec_c])), logged = []\<rparr>
   = (None,
      \<lparr>store = Some (Parsed (JArr [rec_a, rec_b, rec_c])),
         logged = [(INFO, ''Retrieving CSV file links...''),
                   (INFO, ''2025 03: https://datos.madrid.es/a3.zip''),
                   (INFO, ''2025 02: https://datos.madrid.es/a2.zip''),
                   (INFO, ''The rest of the data has already been processed. Exiting.'')]\<rparr>)
   \<and> store (snd (get_data env0 MAIN_URL (JStr ''2024'') (JStr ''12'')
                   \<lparr>store = None, logged = []\<rparr>))
      = Some (Parsed (JArr [rec_a, rec_b]))
   \<and> merge_links [rec_a, rec_b] [rec_b, rec_c] = [rec_a, rec_b, rec_c]"
proof -
  let ?st = "\<lparr>links = [rec_a, rec_b], stop_processing = True,
         messages = [(INFO, ''Retrieving CSV file links...''),
                     (INFO, ''2025 03: https://datos.madrid.es/a3.zip''),
                     (INFO, ''2025 02: https://datos.madrid.es/a2.zip''),
                     (INFO, ''The rest of the data has already been processed. Exiting.'')]\<rparr>"
  have f: "fetch env0 MAIN_URL = Inr page0" by (simp add: env0_def)
  have k: "walk (urljoin env0) page0 (JStr ''2024'') (JStr ''12'') = (None, ?st)"
    by (simp add: env0_def walk_page0_2024_12)
  have d: "record_of ''2024'' ''12'' ''https://datos.madrid.es/b12.zip''
             \<noteq> record_of ''2025'' ''03'' ''https://datos.madrid.es/a3.zip''
           \<and> record_of ''2024'' ''12'' ''https://datos.madrid.es/b12.zip''
             \<noteq> record_of ''2025'' ''02'' ''https://datos.madrid.es/a2.zip''"
    by (simp add: record_of_def)
  from merge_new_first
         [OF f k, of "\<lparr>store = Some (Parsed (JArr [rec_b, rec_c])), logged = []\<rparr>"
            "[rec_b, rec_c]"
            "''2024''" "''12''" "''https://datos.madrid.es/b12.zip''"
            "''2025''" "''03''" "''https://datos.madrid.es/a3.zip''"
            "''2025''" "''02''" "''https://datos.madrid.es/a2.zip''"]
       d
  have "get_data env0 MAIN_URL (JStr ''2024'') (JStr ''12'')
          \<lparr>store = Some (Parsed (JArr [rec_b, rec_c])), logged = []\<rparr>
        = (None,
           \<lparr>store = Some (Parsed (JArr ([rec_a, rec_b] @
                filter (\<lambda>item. \<not> list_ex (\<lambda>new. py_eq new item) [rec_a, rec_b]) [rec_b, rec_c]))),
              logged = messages ?st\<rparr>)"
    and "merge_links [rec_a, rec_b] [rec_b, rec_c] = [rec_a, rec_b, rec_c]"
    by (simp_all add: rec_a_def rec_b_def rec_c_def)
  moreover
  from merge_new_first [OF f k, of "\<lparr>store = None, logged = []\<rparr>"]
  have "store (snd (get_data env0 MAIN_URL (JStr ''2024'') (JStr ''12'')
                   \<lparr>store = None, logged = []\<rparr>))
        = Some (Parsed (JArr [rec_a, rec_b]))"
    by simp
  ultimately show ?thesis
    by (simp add: rec_a_def rec_b_def rec_c_def record_of_def)
qed

text \<open>
  Claim C7. When the walk ends without an exception and with no record, and the file
  holds a list, \<open>get_data\<close> writes the same list back. When \<open>main\<close> runs with the
  checkpoint that \<open>get_last_data\<close> reads from that file, the file is unchanged as well.
\<close>

theorem merge_empty_identity:
  assumes "fetch E url = Inr soup"
    and "walk (urljoin E) soup last_year last_month = (None, st)"
    and "links st = []"
    and "store w = Some (Parsed (JArr existing))"
  shows "fst (get_data E url last_year last_month w) = None
         \<and> store (snd (get_data E url last_year last_month w)) = Some (Parsed (JArr existing))
         \<and> (url = MAIN_URL \<and> get_last_data w = (Inr (last_year, last_month), w) \<longrightarrow>
              fst (main E w) = None \<and> store (snd (main E w)) = store w)"
  using assms
  by (auto simp: get_data_def save_links_def write_links_def merge_links_def py_in_def main_def)

text \<open>
  The file holds the three records of the example page, newest first; the page has not
  changed. The run reads the checkpoint 2025/03, the walk stops at the first entry, and
  the file holds the same three records afterwards.
\<close>

theorem merge_empty_identity_witness:
  "fst (main env0 \<lparr>store = Some (Parsed (JArr [rec_a, rec_b, rec_c])), logged = []\<rparr>) = None
   \<and> store (snd (main env0 \<lparr>store = Some (Parsed (JArr [rec_a, rec_b, rec_c])), logged = []\<rparr>))
      = Some (Parsed (JArr [rec_a, rec_b, rec_c]))"
proof -
  let ?w = "\<lparr>store = Some (Parsed (JArr [rec_a, rec_b, rec_c])), logged = []\<rparr>"
  have f: "fetch env0 MAIN_URL = Inr page0" by (simp add: env0_def)
  have k: "walk (urljoin env0) page0 (JStr ''2025'') (JStr ''03'') =
     (None,
      \<lparr>links = [], stop_processing = True,
         messages = [(INFO, ''Retrieving CSV file links...''),
                     (INFO, ''The rest of the data has already been processed. Exiting.'')]\<rparr>)"
    by (simp add: env0_def walk_page0_2025_03)
  have g: "get_last_data ?w = (Inr (JStr ''2025'', JStr ''03''), ?w)"
    by (simp add: get_last_data_def rec_a_def record_of_def)
  show ?thesis
    using merge_empty_identity [OF f k _ _, of ?w "[rec_a, rec_b, rec_c]"] g
    by simp
qed

section \<open>Structural defects and soft skips\<close>

text \<open>
  Claim C5, as the code has it. When the page is fetched, \<open>get_data\<close> raises
  \<open>ValueError\<close> and leaves the record file as it was if the listing container is
  absent, if the container has no year entries, and if the walk reaches a year entry
  without a title or without month entries, that is, if every year entry before it has a
  title and month entries and none of their month entries is at the checkpoint.
\<close>

theorem structural_defect_raises:
  assumes "fetch E url = Inr soup"
  shows
    "(find_bs soup ''ul'' ''asociada-list trancateList docs'' = None \<longrightarrow>
        fst (get_data E url last_year last_month w) =
          Some (ValueError ''Main document list container not found.'')
        \<and> store (snd (get_data E url last_year last_month w)) = store w)
     \<and> (\<forall>c. find_bs soup ''ul'' ''asociada-list trancateList docs'' = Some c \<and>
            year_entries c = [] \<longrightarrow>
          fst (get_data E url last_year last_month w) = Some (ValueError ''No year elements found.'')
          \<and> store (snd (get_data E url last_year last_month w)) = store w)
     \<and> (\<forall>c pre y post.
          find_bs soup ''ul'' ''asociada-list trancateList docs'' = Some c \<and>
          year_entries c = pre @ y # post \<and> list_all (year_passes last_year last_month) pre \<longrightarrow>
            (find_bs y ''p'' ''info-title'' = None \<longrightarrow>
               fst (get_data E url last_year last_month w) = Some (ValueError ''Year title not found.'')
               \<and> store (snd (get_data E url last_year last_month w)) = store w)
            \<and> (\<forall>t. find_bs y ''p'' ''info-title'' = Some t \<and> month_entries y = [] \<longrightarrow>
                 fst (get_data E url last_year last_month w) =
                   Some (ValueError (''No months found for year '' @ get_text t @ ''.''))
                 \<and> store (snd (get_data E url last_year last_month w)) = store w))"
proof (intro conjI allI impI)
  assume "find_bs soup ''ul'' ''asociada-list trancateList docs'' = None"
  then have "fst (walk (urljoin E) soup last_year last_month)
               = Some (ValueError ''Main document list container not found.'')"
    by (simp add: walk_def)
  with assms get_data_walk_raises
  show "fst (get_data E url last_year last_month w) =
          Some (ValueError ''Main document list container not found.'')"
    and "store (snd (get_data E url last_year last_month w)) = store w"
    by blast+
next
  fix c
  assume "find_bs soup ''ul'' ''asociada-list trancateList docs'' = Some c \<and> year_entries c = []"
  then have "fst (walk (urljoin E) soup last_year last_month)
               = Some (ValueError ''No year elements found.'')"
    by (auto simp: walk_def Let_def dest: find_bs_is_Tag)
  with assms get_data_walk_raises
  show "fst (get_data E url last_year last_month w) = Some (ValueError ''No year elements found.'')"
    and "store (snd (get_data E url last_year last_month w)) = store w"
    by blast+
next
  fix c pre y post
  assume a: "find_bs soup ''ul'' ''asociada-list trancateList docs'' = Some c \<and>
          year_entries c = pre @ y # post \<and> list_all (year_passes last_year last_month) pre"
  assume n: "find_bs y ''p'' ''info-title'' = None"
  have "y \<in> set (year_entries c)" using a by simp
  then have "is_Tag y" by (auto simp: year_entries_def dest: find_all_matches matches_is_Tag)
  with n have "year_head y = Inl (ValueError ''Year title not found.'')"
    by (simp add: year_head_def)
  with a have "fst (walk (urljoin E) soup last_year last_month)
      = Some (ValueError ''Year title not found.'')"
    by (simp add: walk_defect)
  with assms get_data_walk_raises
  show "fst (get_data E url last_year last_month w) = Some (ValueError ''Year title not found.'')"
    and "store (snd (get_data E url last_year last_month w)) = store w"
    by blast+
next
  fix c pre y post t
  assume a: "find_bs soup ''ul'' ''asociada-list trancateList docs'' = Some c \<and>
          year_entries c = pre @ y # post \<and> list_all (year_passes last_year last_month) pre"
  assume n: "find_bs y ''p'' ''info-title'' = Some t \<and> month_entries y = []"
  have "y \<in> set (year_entries c)" using a by simp
  then have "is_Tag y" by (auto simp: year_entries_def dest: find_all_matches matches_is_Tag)
  with n have "year_head y = Inl (ValueError (''No months found for year '' @ get_text t @ ''.''))"
    by (simp add: year_head_def)
  with a have "fst (walk (urljoin E) soup last_year last_month)
      = Some (ValueError (''No months found for year '' @ get_text t @ ''.''))"
    by (simp add: walk_defect)
  with assms get_data_walk_raises
  show "fst (get_data E url last_year last_month w)
      = Some (ValueError (''No months found for year '' @ get_text t @ ''.''))"
    and "store (snd (get_data E url last_year last_month w)) = store w"
    by blast+
qed

text \<open>
  With a checkpoint that no entry matches: on a page whose second year entry is empty the
  run raises at that entry and leaves the file alone; a year entry with a title and no
  month entries raises as well; so do a page with no listing container and a page whose
  container is empty.
\<close>

theorem structural_defect_raises_witness:
  "fst (get_data (env_of page1) MAIN_URL (JStr ''2024'') (JStr ''12'')
          \<lparr>store = Some (Parsed (JArr [rec_b])), logged = []\<rparr>)
     = Some (ValueError ''Year title not found.'')
   \<and> store (snd (get_data (env_of page1) MAIN_URL (JStr ''2024'') (JStr ''12'')
          \<lparr>store = Some (Parsed (JArr [rec_b])), logged = []\<rparr>))
     = Some (Parsed (JArr [rec_b]))
   \<and> fst (get_data (env_of (listing [item [title ''2023'']])) MAIN_URL (JStr ''2024'') (JStr ''12'')
          \<lparr>store = Some (Parsed (JArr [rec_b])), logged = []\<rparr>)
     = Some (ValueError ''No months found for year 2023.'')
   \<and> fst (get_data (env_of (Tag ''[document]'' [] [])) MAIN_URL (JStr ''2024'') (JStr ''12'')
          \<lparr>store = Some (Parsed (JArr [rec_b])), logged = []\<rparr>)
     = Some (ValueError ''Main document list container not found.'')
   \<and> fst (get_data (env_of (listing [])) MAIN_URL (JStr ''2024'') (JStr ''12'')
          \<lparr>store = Some (Parsed (JArr [rec_b])), logged = []\<rparr>)
     = Some (ValueError ''No year elements found.'')"
proof -
  let ?w = "\<lparr>store = Some (Parsed (JArr [rec_b])), logged = []\<rparr>"
  let ?y = "year_item ''2025'' [month_item ''03'' ''/a3.zip'', month_item ''02'' ''/a2.zip'']"
  let ?t = "item [title ''2023'']"
  let ?d = "Tag ''[document]'' [] []"
  have f: "fetch (env_of page1) MAIN_URL = Inr page1" by (simp add: env_of_def)
  have c: "find_bs page1 ''ul'' ''asociada-list trancateList docs''
             = Some (container_of [?y, item []])"
    by (simp add: page1_def page_defs find_bs_def find_all_def)
  have y: "year_entries (container_of [?y, item []]) = [?y] @ item [] # []"
    by (simp add: page_defs year_entries_def find_all_def)
  have p: "list_all (year_passes (JStr ''2024'') (JStr ''12'')) [?y]"
    by (simp add: year_passes_def stops_at_def page_defs year_head_def month_entries_def
        find_bs_def find_all_def get_text_def strip_def py_isspace_def at_checkpoint_def)
  have n: "find_bs (item []) ''p'' ''info-title'' = None"
    by (simp add: item_def find_bs_def find_all_def)
  from structural_defect_raises [OF f, of "JStr ''2024''" "JStr ''12''" ?w] c y p n
  have "fst (get_data (env_of page1) MAIN_URL (JStr ''2024'') (JStr ''12'') ?w)
          = Some (ValueError ''Year title not found.'')"
    and "store (snd (get_data (env_of page1) MAIN_URL (JStr ''2024'') (JStr ''12'') ?w)) = store ?w"
    by blast+
  then have first: "fst (get_data (env_of page1) MAIN_URL (JStr ''2024'') (JStr ''12'') ?w)
          = Some (ValueError ''Year title not found.'')
     \<and> store (snd (get_data (env_of page1) MAIN_URL (JStr ''2024'') (JStr ''12'') ?w))
          = Some (Parsed (JArr [rec_b]))"
    by simp
  have f2: "fetch (env_of (listing [?t])) MAIN_URL = Inr (listing [?t])" by (simp add: env_of_def)
  have c2: "find_bs (listing [?t]) ''ul'' ''asociada-list trancateList docs''
              = Some (container_of [?t])"
    by (simp add: page_defs find_bs_def find_all_def)
  have y2: "year_entries (container_of [?t]) = [] @ ?t # []"
    by (simp add: page_defs year_entries_def find_all_def)
  have t2: "find_bs ?t ''p'' ''info-title'' = Some (title ''2023'')"
    and m2: "month_entries ?t = []"
    and g2: "get_text (title ''2023'') = ''2023''"
    by (simp_all add: page_defs find_bs_def find_all_def month_entries_def get_text_def
        strip_def py_isspace_def)
  have p2: "list_all (year_passes (JStr ''2024'') (JStr ''12'')) []" by simp
  from structural_defect_raises [OF f2, of "JStr ''2024''" "JStr ''12''" ?w] c2 y2 t2 m2 p2
  have "fst (get_data (env_of (listing [?t])) MAIN_URL (JStr ''2024'') (JStr ''12'') ?w)
          = Some (ValueError (''No months found for year '' @ get_text (title ''2023'') @ ''.''))"
    by blast
  then have second: "fst (get_data (env_of (listing [?t])) MAIN_URL (JStr ''2024'') (JStr ''12'') ?w)
          = Some (ValueError ''No months found for year 2023.'')"
    by (simp add: g2)
  have f3: "fetch (env_of ?d) MAIN_URL = Inr ?d" by (simp add: env_of_def)
  have e3: "find_bs ?d ''ul'' ''asociada-list trancateList docs'' = None"
    by (simp add: find_bs_def find_all_def)
  from structural_defect_raises [OF f3, of "JStr ''2024''" "JStr ''12''" ?w] e3
  have third: "fst (get_data (env_of ?d) MAIN_URL (JStr ''2024'') (JStr ''12'') ?w)
          = Some (ValueError ''Main document list container not found.'')"
    by blast
  have f4: "fetch (env_of (listing [])) MAIN_URL = Inr (listing [])" by (simp add: env_of_def)
  have c4: "find_bs (listing []) ''ul'' ''asociada-list trancateList docs'' = Some (container_of [])"
    by (simp add: page_defs find_bs_def find_all_def)
  have y4: "year_entries (container_of []) = []"
    by (simp add: page_defs year_entries_def find_all_def)
  from structural_defect_raises [OF f4, of "JStr ''2024''" "JStr ''12''" ?w] c4 y4
  have fourth: "fst (get_data (env_of (listing [])) MAIN_URL (JStr ''2024'') (JStr ''12'') ?w)
          = Some (ValueError ''No year elements found.'')"
    by blast
  from first second third fourth show ?thesis by blast
qed

text \<open>
  Claim C5 as stated fails: the same page has a year entry without title and without
  month entries, but with the checkpoint 2025/02 the walk stops in the first year, nothing
  is raised, and the record file is rewritten with the record of 2025/03 in front.
\<close>

theorem defect_behind_checkpoint_not_raised:
  "year_entries (container_of [year_item ''2025'' [month_item ''03'' ''/a3.zip'', month_item ''02'' ''/a2.zip''], item []])
     = [year_item ''2025'' [month_item ''03'' ''/a3.zip'', month_item ''02'' ''/a2.zip''], item []]
   \<and> find_bs (item []) ''p'' ''info-title'' = None
   \<and> month_entries (item []) = []
   \<and> get_data (env_of page1) MAIN_URL (JStr ''2025'') (JStr ''02'')
          \<lparr>store = Some (Parsed (JArr [rec_b])), logged = []\<rparr>
      = (None,
         \<lparr>store = Some (Parsed (JArr [rec_a, rec_b])),
            logged = [(INFO, ''Retrieving CSV file links...''),
                      (INFO, ''2025 03: https://datos.madrid.es/a3.zip''),
                      (INFO, ''The rest of the data has already been processed. Exiting.'')]\<rparr>)"
  by (simp add: get_data_def save_links_def write_links_def merge_links_def py_in_def env_of_def page1_def
      join0_def rec_a_def rec_b_def record_of_def BASE_URL_def page_defs walk_defs)

text \<open>
  Claim C6, as the code has it. A month entry with a title that is not at the checkpoint,
  and that has no link container, or no ZIP anchor below the link container, or an anchor
  whose \<^verbatim>\<open>href\<close> is not a string, adds no record: the loop body logs one warning, leaves
  \<^verbatim>\<open>links\<close> and \<^verbatim>\<open>stop_processing\<close> as they are and goes on, so the loop over the entry
  and the entries after it is the loop over the entries after it, started with the
  warning logged. What follows the inner loop (the later years) depends on that result
  only.
\<close>

theorem soft_skip_continues:
  assumes "find_bs m ''p'' ''info-title'' = Some t"
    and "\<not> at_checkpoint last_year last_month yv (get_text t)"
    and "find_bs m ''li'' ''asociada-item'' = None
         \<or> (\<exists>l. find_bs m ''li'' ''asociada-item'' = Some l \<and>
                 find_bs l ''a'' ''asociada-link ico-zip'' = None)
         \<or> (\<exists>l z. find_bs m ''li'' ''asociada-item'' = Some l \<and>
                   find_bs l ''a'' ''asociada-link ico-zip'' = Some z \<and>
                   (\<forall>h. get_attr z ''href'' \<noteq> Some (AttrStr h)))"
  shows "\<exists>msg. month_body join last_year last_month yv m st = (Next, emit WARNING msg st)
           \<and> links (emit WARNING msg st) = links st
           \<and> stop_processing (emit WARNING msg st) = stop_processing st
           \<and> (\<forall>ms. months_loop join last_year last_month yv (m # ms) st =
                     months_loop join last_year last_month yv ms (emit WARNING msg st))"
proof -
  have tag: "is_Tag m" using assms(1) by (cases "is_Tag m") (simp_all add: find_bs_not_Tag)
  have "\<exists>msg. month_body join last_year last_month yv m st = (Next, emit WARNING msg st)"
    using assms tag
    by (auto simp: month_body_def Let_def find_bs_is_Tag split: option.splits attr_value.splits)
  then obtain msg where b: "month_body join last_year last_month yv m st = (Next, emit WARNING msg st)"
    by blast
  then show ?thesis by (auto simp: emit_def)
qed

text \<open>
  The three kinds of entry under the year 2025 with the checkpoint 2025/03: no link
  container (followed by the entry 01, which the loop goes on to), a link container with
  no anchor, an anchor with no \<^verbatim>\<open>href\<close>.
\<close>

theorem soft_skip_continues_witness:
  "months_loop join0 (JStr ''2025'') (JStr ''03'') ''2025''
     [item [title ''02''], month_item ''01'' ''/a1.zip'']
     \<lparr>links = [], stop_processing = False, messages = []\<rparr>
   = months_loop join0 (JStr ''2025'') (JStr ''03'') ''2025'' [month_item ''01'' ''/a1.zip'']
       \<lparr>links = [], stop_processing = False,
          messages = [(WARNING, ''Links container not found in 2025 02. Skipping.'')]\<rparr>
   \<and> fst (month_body join0 (JStr ''2025'') (JStr ''03'') ''2025''
            (item [title ''02'', item []])
            \<lparr>links = [], stop_processing = False, messages = []\<rparr>) = Next
   \<and> fst (month_body join0 (JStr ''2025'') (JStr ''03'') ''2025''
            (item [title ''02'', item [Tag ''a'' [(''class'', AttrList [''asociada-link'', ''ico-zip''])] []]])
            \<lparr>links = [], stop_processing = False, messages = []\<rparr>) = Next"
proof -
  let ?st = "\<lparr>links = [], stop_processing = False, messages = []\<rparr>"
  let ?a = "Tag ''a'' [(''class'', AttrList [''asociada-link'', ''ico-zip''])] []"
  have n: "\<not> at_checkpoint (JStr ''2025'') (JStr ''03'') ''2025'' (get_text (title ''02''))"
    by (simp add: at_checkpoint_def title_def get_text_def strip_def py_isspace_def)
  have t1: "find_bs (item [title ''02'']) ''p'' ''info-title'' = Some (title ''02'')"
    and c1: "find_bs (item [title ''02'']) ''li'' ''asociada-item'' = None"
    by (simp_all add: item_def title_def find_bs_def find_all_def)
  have t2: "find_bs (item [title ''02'', item []]) ''p'' ''info-title'' = Some (title ''02'')"
    and c2: "find_bs (item [title ''02'', item []]) ''li'' ''asociada-item'' = Some (item [])"
    and z2: "find_bs (item []) ''a'' ''asociada-link ico-zip'' = None"
    by (simp_all add: item_def title_def find_bs_def find_all_def)
  have t3: "find_bs (item [title ''02'', item [?a]]) ''p'' ''info-title'' = Some (title ''02'')"
    and c3: "find_bs (item [title ''02'', item [?a]]) ''li'' ''asociada-item'' = Some (item [?a])"
    and z3: "find_bs (item [?a]) ''a'' ''asociada-link ico-zip'' = Some ?a"
    and h3: "\<forall>h. get_attr ?a ''href'' \<noteq> Some (AttrStr h)"
    by (simp_all add: item_def title_def find_bs_def find_all_def)
  from soft_skip_continues [OF t1 n, of join0 ?st] c1
  obtain msg where m1: "month_body join0 (JStr ''2025'') (JStr ''03'') ''2025'' (item [title ''02'']) ?st
        = (Next, emit WARNING msg ?st)"
    and l1: "\<forall>ms. months_loop join0 (JStr ''2025'') (JStr ''03'') ''2025'' (item [title ''02''] # ms) ?st =
                     months_loop join0 (JStr ''2025'') (JStr ''03'') ''2025'' ms (emit WARNING msg ?st)"
    by blast
  have "month_body join0 (JStr ''2025'') (JStr ''03'') ''2025'' (item [title ''02'']) ?st
        = (Next, emit WARNING ''Links container not found in 2025 02. Skipping.'' ?st)"
    by (simp add: page_defs walk_defs)
  with m1 have "emit WARNING msg ?st = \<lparr>links = [], stop_processing = False,
          messages = [(WARNING, ''Links container not found in 2025 02. Skipping.'')]\<rparr>"
    by (simp add: emit_def)
  with l1 have first: "months_loop join0 (JStr ''2025'') (JStr ''03'') ''2025''
     [item [title ''02''], month_item ''01'' ''/a1.zip''] ?st
   = months_loop join0 (JStr ''2025'') (JStr ''03'') ''2025'' [month_item ''01'' ''/a1.zip'']
       \<lparr>links = [], stop_processing = False,
          messages = [(WARNING, ''Links container not found in 2025 02. Skipping.'')]\<rparr>"
    by simp
  from soft_skip_continues [OF t2 n, of join0 ?st] c2 z2
  have second: "fst (month_body join0 (JStr ''2025'') (JStr ''03'') ''2025'' (item [title ''02'', item []]) ?st) = Next"
    by auto
  from soft_skip_continues [OF t3 n, of join0 ?st] c3 z3 h3
  have third: "fst (month_body join0 (JStr ''2025'') (JStr ''03'') ''2025'' (item [title ''02'', item [?a]]) ?st) = Next"
    by auto
  from first second third show ?thesis by blast
qed

text \<open>
  Claim C6 as stated fails: the entry 02 has a title and no link container, and with
  the checkpoint 2025/02 the walk stops at it; the entry 01 after it yields no record,
  though it yields one when there is no checkpoint.
\<close>

theorem soft_skip_at_checkpoint_stops:
  "find_bs (item [title ''02'']) ''p'' ''info-title'' = Some (title ''02'')
   \<and> find_bs (item [title ''02'']) ''li'' ''asociada-item'' = None
   \<and> walk join0 page2 (JStr ''2025'') (JStr ''02'')
      = (None,
         \<lparr>links = [], stop_processing = True,
            messages = [(INFO, ''Retrieving CSV file links...''),
                        (INFO, ''The rest of the data has already been processed. Exiting.'')]\<rparr>)
   \<and> walk join0 page2 (JStr []) (JStr [])
      = (None,
         \<lparr>links = [record_of ''2025'' ''01'' ''https://datos.madrid.es/a1.zip''],
            stop_processing = False,
            messages = [(INFO, ''Retrieving CSV file links...''),
                        (WARNING, ''Links container not found in 2025 02. Skipping.''),
                        (INFO, ''2025 01: https://datos.madrid.es/a1.zip'')]\<rparr>)"
  by (simp add: page2_def join0_def BASE_URL_def page_defs walk_defs)

section \<open>Where year entries and month entries are searched\<close>

text \<open>
  Claim C8. An element with the signature of a listing item is a year entry of the
  container exactly when it is a child of the container, and a month entry of a year
  exactly when it is anywhere below the year. So an element inside a wrapper that is a
  child, and not itself a child, is found as a month entry and is not found as a year
  entry.
\<close>

theorem years_direct_months_nested:
  assumes "matches ''li'' ''asociada-item'' e"
  shows "(e \<in> set (year_entries t) \<longleftrightarrow> e \<in> set (children t))
         \<and> (e \<in> set (month_entries t) \<longleftrightarrow> e \<in> set (descendants t))
         \<and> (e \<in> set (children w) \<and> w \<in> set (children t) \<and> e \<notin> set (children t) \<longrightarrow>
              e \<in> set (month_entries t) \<and> e \<notin> set (year_entries t))"
  using assms
  by (auto simp: year_entries_def month_entries_def find_all_def
           intro: descendants_trans children_descendants)

text \<open>
  A month inside the nested list of its year is a month entry; a year inside a
  \<^verbatim>\<open>div\<close> below the container is not a year entry, and the walk over such a page
  raises for lack of year entries.
\<close>

theorem years_direct_months_nested_witness:
  "month_item ''03'' ''/a3.zip'' \<in> set (month_entries (year_item ''2025'' [month_item ''03'' ''/a3.zip'']))
   \<and> year_item ''2025'' [month_item ''03'' ''/a3.zip'']
        \<notin> set (year_entries (container_of [Tag ''div'' [] [year_item ''2025'' [month_item ''03'' ''/a3.zip'']]]))
   \<and> fst (walk join0 (listing [Tag ''div'' [] [year_item ''2025'' [month_item ''03'' ''/a3.zip'']]]) JNull JNull)
      = Some (ValueError ''No year elements found.'')"
proof -
  let ?m = "month_item ''03'' ''/a3.zip''"
  let ?y = "year_item ''2025'' [?m]"
  have mm: "matches ''li'' ''asociada-item'' ?m" and my: "matches ''li'' ''asociada-item'' ?y"
    by (simp_all add: page_defs)
  have a: "?m \<in> set (children (Tag ''ul'' [] [?m])) \<and> Tag ''ul'' [] [?m] \<in> set (children ?y)
           \<and> ?m \<notin> set (children ?y)"
    by (simp add: page_defs)
  have b: "?y \<in> set (children (Tag ''div'' [] [?y]))
           \<and> Tag ''div'' [] [?y] \<in> set (children (container_of [Tag ''div'' [] [?y]]))
           \<and> ?y \<notin> set (children (container_of [Tag ''div'' [] [?y]]))"
    by (simp add: page_defs)
  from years_direct_months_nested [OF mm, of ?y "Tag ''ul'' [] [?m]"] a
  have "?m \<in> set (month_entries ?y)" by blast
  moreover
  from years_direct_months_nested [OF my, of "container_of [Tag ''div'' [] [?y]]" "Tag ''div'' [] [?y]"] b
  have "?y \<notin> set (year_entries (container_of [Tag ''div'' [] [?y]]))" by blast
  moreover
  have "fst (walk join0 (listing [Tag ''div'' [] [?y]]) JNull JNull)
      = Some (ValueError ''No year elements found.'')"
    by (simp add: page_defs walk_defs)
  ultimately show ?thesis by blast
qed

text \<open>
  Claim C10. Month entries and link containers have the same signature, and the month
  entries of a year are searched recursively: every listing item below a month entry of
  the year, in particular the link container that the loop body finds in it, is itself
  among the month entries of the year. Such a candidate, when no title is found below it,
  goes through the loop body with no effect: no record, no log line, no break. The walk
  therefore collects at most as many records as there are candidates with a title.
\<close>

theorem link_containers_are_candidates:
  "(m \<in> set (month_entries year) \<and> l \<in> set (month_entries m) \<longrightarrow> l \<in> set (month_entries year))
   \<and> (m \<in> set (month_entries year) \<and> find_bs m ''li'' ''asociada-item'' = Some l \<longrightarrow>
        l \<in> set (month_entries year))
   \<and> (l \<in> set (month_entries year) \<and> find_bs l ''p'' ''info-title'' = None \<longrightarrow>
        month_body join last_year last_month yv l st = (Next, st))
   \<and> length (links (snd (walk join soup last_year last_month))) \<le> length (titled_entries soup)"
proof (intro conjI impI)
  assume "m \<in> set (month_entries year) \<and> l \<in> set (month_entries m)"
  then show "l \<in> set (month_entries year)"
    unfolding month_entries_def by (blast intro: find_all_nested)
next
  assume a: "m \<in> set (month_entries year) \<and> find_bs m ''li'' ''asociada-item'' = Some l"
  then have "l \<in> set (find_all m ''li'' ''asociada-item'' True)"
    by (simp add: find_bs_in_find_all)
  with a show "l \<in> set (month_entries year)"
    unfolding month_entries_def by (blast intro: find_all_nested)
next
  assume a: "l \<in> set (month_entries year) \<and> find_bs l ''p'' ''info-title'' = None"
  then have "is_Tag l"
    unfolding month_entries_def by (blast dest: find_all_matches matches_is_Tag)
  with a show "month_body join last_year last_month yv l st = (Next, st)"
    by (simp add: month_body_def)
next
  show "length (links (snd (walk join soup last_year last_month))) \<le> length (titled_entries soup)"
    by (rule walk_links_bound)
qed

text \<open>
  The month entries of a year with the single month 03 are the month and its link
  container; the link container passes through the loop body unchanged; the walk over the
  example page, which has three titled candidates, collects at most three records.
\<close>

theorem link_containers_are_candidates_witness:
  "month_entries (year_item ''2025'' [month_item ''03'' ''/a3.zip''])
     = [month_item ''03'' ''/a3.zip'', item [zip_anchor ''/a3.zip'']]
   \<and> month_body join0 (JStr ''2025'') (JStr ''02'') ''2025'' (item [zip_anchor ''/a3.zip''])
        \<lparr>links = [], stop_processing = False, messages = []\<rparr>
      = (Next, \<lparr>links = [], stop_processing = False, messages = []\<rparr>)
   \<and> length (links (snd (walk join0 page0 JNull JNull))) \<le> 3
   \<and> item [zip_anchor ''/a3.zip'']
        \<in> set (month_entries (year_item ''2025'' [month_item ''03'' ''/a3.zip'']))"
proof -
  let ?l = "item [zip_anchor ''/a3.zip'']"
  let ?m = "month_item ''03'' ''/a3.zip''"
  let ?y = "year_item ''2025'' [?m]"
  let ?st = "\<lparr>links = [], stop_processing = False, messages = []\<rparr>"
  have e: "month_entries ?y = [?m, ?l]"
    by (simp add: page_defs month_entries_def find_all_def)
  have f: "find_bs ?m ''li'' ''asociada-item'' = Some ?l"
    by (simp add: page_defs find_bs_def find_all_def)
  have n: "find_bs ?l ''p'' ''info-title'' = None"
    by (simp add: page_defs find_bs_def find_all_def)
  have t: "length (titled_entries page0) = 3"
    by (simp add: titled_entries_def page0_def page_defs has_title_def month_entries_def
        year_entries_def find_bs_def find_all_def)
  have m: "?m \<in> set (month_entries ?y)" using e by simp
  from link_containers_are_candidates [of ?m ?y ?l join0 "JStr ''2025''" "JStr ''02''" "''2025''" ?st page0] m f n t
  have "month_body join0 (JStr ''2025'') (JStr ''02'') ''2025'' ?l ?st = (Next, ?st)"
    and "length (links (snd (walk join0 page0 (JStr ''2025'') (JStr ''02'')))) \<le> 3"
    by simp_all
  moreover
  from link_containers_are_candidates [of ?m ?y ?l join0 JNull JNull "''2025''" ?st page0] t
  have "length (links (snd (walk join0 page0 JNull JNull))) \<le> 3" by simp
  moreover
  have "?l \<in> set (month_entries ?m)"
    by (simp add: page_defs month_entries_def find_all_def)
  with link_containers_are_candidates
         [of ?m ?y ?l join0 JNull JNull "''2025''" ?st page0] m
  have "?l \<in> set (month_entries ?y)" by blast
  ultimately show ?thesis using e by simp
qed

end
